theory Spec2Isabelle
  imports Main "HOL-Library.Word"
begin

unbundle bit_operations_syntax

section \<open>Data model of app.py\<close>

text \<open>
  A value stored in a column of the SQLite database. The storage classes modelled are
  NULL, INTEGER and TEXT; Python reads them back as \<open>None\<close>, \<open>int\<close> and \<open>str\<close>.
  A Python string is modelled as the \<open>string\<close> of the bytes of its UTF-8 encoding, which
  for ASCII text is the text itself; white space and letter case are modelled on the ASCII
  characters.
\<close>

datatype sql_value = Null | Integer int | Text string

text \<open>
  One row of the \<open>users\<close> table: columns id, username, password, created_at. In a table
  created by this program the id is an integer (\<open>INTEGER PRIMARY KEY\<close>); a legacy table may
  hold any value there.
\<close>

record user_row =
  user_id :: sql_value
  username :: sql_value
  password :: sql_value
  created_at :: sql_value

text \<open>One row of the \<open>feedback\<close> table.\<close>

record feedback_row =
  fb_id :: int
  fb_username :: string
  fb_user_id :: sql_value
  fb_text :: string
  fb_at :: string

text \<open>
  The feedback table: whether it has the user_id column, its rows, and the largest id ever
  given (the id column is AUTOINCREMENT and rows can be deleted).
\<close>

record feedback_table =
  has_user_id :: bool
  fb_rows :: "feedback_row list"
  fb_seq :: int

text \<open>
  A CSV mirror file is the list of its records, header first; \<open>None\<close> is a file that does
  not exist.
\<close>

type_synonym csv_file = "string list list"

text \<open>
  The persistent state the credential, feedback and session functions work on: the rows
  of the \<open>users\<close> table in rowid order, the feedback table (\<open>None\<close>: no such table), the
  session marker file data/current_user.txt and the three append-only CSV mirrors.
\<close>

record state =
  users :: "user_row list"
  feedback :: "feedback_table option"
  current_user_file :: "string option"
  users_export :: "csv_file option"
  feedback_log :: "csv_file option"
  user_activity :: "csv_file option"

text \<open>
  What the environment does to the fallible effects of one call: \<open>write_error\<close> is the
  message of the exception the database write (INSERT, UPDATE, commit) raises, if it
  raises; \<open>csv_error\<close> says that the CSV mirror write raises.
\<close>

record faults =
  write_error :: "string option"
  csv_error :: bool

section \<open>SHA-256\<close>

text \<open>
  \<open>hashlib.sha256(data).hexdigest()\<close>: the SHA-256 digest of a byte string (FIPS 180-4) as
  64 lowercase hexadecimal characters.
\<close>

type_synonym w32 = "32 word"

definition sha_k :: "w32 list" where
  "sha_k =
    [0x428A2F98, 0x71374491, 0xB5C0FBCF, 0xE9B5DBA5, 0x3956C25B, 0x59F111F1,
     0x923F82A4, 0xAB1C5ED5, 0xD807AA98, 0x12835B01, 0x243185BE, 0x550C7DC3,
     0x72BE5D74, 0x80DEB1FE, 0x9BDC06A7, 0xC19BF174, 0xE49B69C1, 0xEFBE4786,
     0x0FC19DC6, 0x240CA1CC, 0x2DE92C6F, 0x4A7484AA, 0x5CB0A9DC, 0x76F988DA,
     0x983E5152, 0xA831C66D, 0xB00327C8, 0xBF597FC7, 0xC6E00BF3, 0xD5A79147,
     0x06CA6351, 0x14292967, 0x27B70A85, 0x2E1B2138, 0x4D2C6DFC, 0x53380D13,
     0x650A7354, 0x766A0ABB, 0x81C2C92E, 0x92722C85, 0xA2BFE8A1, 0xA81A664B,
     0xC24B8B70, 0xC76C51A3, 0xD192E819, 0xD6990624, 0xF40E3585, 0x106AA070,
     0x19A4C116, 0x1E376C08, 0x2748774C, 0x34B0BCB5, 0x391C0CB3, 0x4ED8AA4A,
     0x5B9CCA4F, 0x682E6FF3, 0x748F82EE, 0x78A5636F, 0x84C87814, 0x8CC70208,
     0x90BEFFFA, 0xA4506CEB, 0xBEF9A3F7, 0xC67178F2]"

definition rotr :: "nat \<Rightarrow> w32 \<Rightarrow> w32" where
  "rotr n x = (drop_bit n x) OR (push_bit (32 - n) x)"

definition ch :: "w32 \<Rightarrow> w32 \<Rightarrow> w32 \<Rightarrow> w32" where
  "ch x y z = (x AND y) XOR (NOT x AND z)"

definition maj :: "w32 \<Rightarrow> w32 \<Rightarrow> w32 \<Rightarrow> w32" where
  "maj x y z = (x AND y) XOR (x AND z) XOR (y AND z)"

definition big_sigma0 :: "w32 \<Rightarrow> w32" where
  "big_sigma0 x = rotr 2 x XOR rotr 13 x XOR rotr 22 x"

definition big_sigma1 :: "w32 \<Rightarrow> w32" where
  "big_sigma1 x = rotr 6 x XOR rotr 11 x XOR rotr 25 x"

definition small_sigma0 :: "w32 \<Rightarrow> w32" where
  "small_sigma0 x = rotr 7 x XOR rotr 18 x XOR drop_bit 3 x"

definition small_sigma1 :: "w32 \<Rightarrow> w32" where
  "small_sigma1 x = rotr 17 x XOR rotr 19 x XOR drop_bit 10 x"

text \<open>
  The padded message: the bytes, 0x80, zero bytes up to 56 modulo 64, and the length in
  bits as 8 bytes, big-endian.
\<close>

definition length_bytes :: "nat \<Rightarrow> 8 word list" where
  "length_bytes n = map (\<lambda>i. ucast (drop_bit (8 * (7 - i)) (of_nat (8 * n) :: 64 word))) [0..<8]"

definition pad :: "8 word list \<Rightarrow> 8 word list" where
  "pad m = m @ [0x80] @ replicate ((119 - length m mod 64) mod 64) 0 @ length_bytes (length m)"

fun be_words :: "8 word list \<Rightarrow> w32 list" where
  "be_words (a # b # c # d # bs) =
     (push_bit 24 (ucast a) OR push_bit 16 (ucast b) OR push_bit 8 (ucast c) OR ucast d) # be_words bs"
| "be_words bs = []"

fun extend :: "nat \<Rightarrow> w32 list \<Rightarrow> w32 list" where
  "extend 0 w = w"
| "extend (Suc n) w =
     (let t = length w
      in extend n (w @ [small_sigma1 (w ! (t - 2)) + w ! (t - 7) + small_sigma0 (w ! (t - 15)) + w ! (t - 16)]))"

type_synonym sha_state = "w32 \<times> w32 \<times> w32 \<times> w32 \<times> w32 \<times> w32 \<times> w32 \<times> w32"

definition sha_round :: "w32 \<times> w32 \<Rightarrow> sha_state \<Rightarrow> sha_state" where
  "sha_round kw st =
     (case st of (a, b, c, d, e, f, g, h) \<Rightarrow>
        let t1 = h + big_sigma1 e + ch e f g + fst kw + snd kw;
            t2 = big_sigma0 a + maj a b c
        in (t1 + t2, a, b, c, d + t1, e, f, g))"

definition compress :: "w32 list \<Rightarrow> sha_state \<Rightarrow> sha_state" where
  "compress block st =
     (case st of (a, b, c, d, e, f, g, h) \<Rightarrow>
        (case fold sha_round (zip sha_k (extend 48 block)) st of
           (a', b', c', d', e', f', g', h') \<Rightarrow>
             (a + a', b + b', c + c', d + d', e + e', f + f', g + g', h + h')))"

fun blocks :: "nat \<Rightarrow> w32 list \<Rightarrow> w32 list list" where
  "blocks 0 ws = []"
| "blocks (Suc n) ws = take 16 ws # blocks n (drop 16 ws)"

definition sha256 :: "8 word list \<Rightarrow> sha_state" where
  "sha256 m =
     (let ws = be_words (pad m)
      in fold compress (blocks (length ws div 16) ws)
           (0x6A09E667, 0xBB67AE85, 0x3C6EF372, 0xA54FF53A,
            0x510E527F, 0x9B05688C, 0x1F83D9AB, 0x5BE0CD19))"

definition hexdigits :: string where
  "hexdigits = ''0123456789abcdef''"

definition hex32 :: "w32 \<Rightarrow> string" where
  "hex32 w = map (\<lambda>i. hexdigits ! unat (drop_bit (4 * (7 - i)) w AND 0xF)) [0..<8]"

definition hexdigest :: "sha_state \<Rightarrow> string" where
  "hexdigest st =
     (case st of (a, b, c, d, e, f, g, h) \<Rightarrow>
        hex32 a @ hex32 b @ hex32 c @ hex32 d @ hex32 e @ hex32 f @ hex32 g @ hex32 h)"

definition sha256_hexdigest :: "8 word list \<Rightarrow> string" where
  "sha256_hexdigest data = hexdigest (sha256 data)"

section \<open>Password hashing\<close>

text \<open>\<open>str.encode('utf-8')\<close>: the bytes of the string.\<close>

definition encode_utf8 :: "string \<Rightarrow> 8 word list" where
  "encode_utf8 s = map of_char s"

definition hash_password :: "string \<Rightarrow> string" where
  "hash_password pwd = sha256_hexdigest (encode_utf8 pwd)"

definition verify_password :: "string \<Rightarrow> string \<Rightarrow> bool" where
  "verify_password pwd hashed = (sha256_hexdigest (encode_utf8 pwd) = hashed)"

definition lower_char :: "char \<Rightarrow> char" where
  "lower_char c =
     (case map_of (zip ''ABCDEFGHIJKLMNOPQRSTUVWXYZ'' ''abcdefghijklmnopqrstuvwxyz'') c of
        Some l \<Rightarrow> l
      | None \<Rightarrow> c)"

definition str_lower :: "string \<Rightarrow> string" where
  "str_lower s = map lower_char s"

text \<open>
  The test of check_credentials on the stored value:
  \<^verbatim>\<open>stored and isinstance(stored, str) and len(stored) == 64
     and all(c in '0123456789abcdef' for c in stored.lower())\<close>.
  The result is the stored text when the test passes.
\<close>

definition stored_hash :: "sql_value \<Rightarrow> string option" where
  "stored_hash stored =
     (case stored of
        Text h \<Rightarrow>
          if h \<noteq> [] \<and> length h = 64 \<and> list_all (\<lambda>c. c \<in> set hexdigits) (str_lower h)
          then Some h else None
      | _ \<Rightarrow> None)"

section \<open>Credential store\<close>

definition append_csv :: "string list \<Rightarrow> string list \<Rightarrow> csv_file option \<Rightarrow> csv_file option" where
  "append_csv header row file =
     (case file of None \<Rightarrow> Some [header, row] | Some recs \<Rightarrow> Some (recs @ [row]))"

text \<open>\<open>SELECT ... FROM users WHERE username=?\<close> followed by \<open>fetchone()\<close>.\<close>

definition select_user :: "string \<Rightarrow> user_row list \<Rightarrow> user_row option" where
  "select_user uname rows = find (\<lambda>r. username r = Text uname) rows"

definition int_id :: "sql_value \<Rightarrow> int option" where
  "int_id v = (case v of Integer i \<Rightarrow> Some i | _ \<Rightarrow> None)"

text \<open>
  The id SQLite gives a row inserted without one into a table whose id is the integer
  primary key: 1 in a table without rows, else the largest id plus 1.
\<close>

definition next_id :: "user_row list \<Rightarrow> int" where
  "next_id rows =
     (case List.map_filter (\<lambda>r. int_id (user_id r)) rows of
        [] \<Rightarrow> 1
      | i # is \<Rightarrow> fold max is i + 1)"

definition signup :: "string \<Rightarrow> faults \<Rightarrow> string \<Rightarrow> string \<Rightarrow> state
    \<Rightarrow> (bool \<times> string) \<times> state" where
  "signup now io uname pwd s =
     (if select_user uname (users s) \<noteq> None then ((False, ''Username already exists''), s)
      else
        (case write_error io of
           Some e \<Rightarrow> ((False, e), s)
         | None \<Rightarrow>
             let hashed = hash_password pwd;
                 s1 = s\<lparr>users := users s @
                        [\<lparr>user_id = Integer (next_id (users s)), username = Text uname,
                          password = Text hashed, created_at = Text now\<rparr>]\<rparr>;
                 s2 = (if csv_error io then s1
                       else s1\<lparr>users_export :=
                              append_csv [''username'', ''created_at'', ''password'']
                                [uname, now, hashed] (users_export s1)\<rparr>)
             in ((True, ''Account created''), s2)))"

definition log_login :: "string \<Rightarrow> faults \<Rightarrow> string \<Rightarrow> state \<Rightarrow> state" where
  "log_login now io u s =
     (if csv_error io then s
      else s\<lparr>user_activity :=
             append_csv [''username'', ''event'', ''at''] [u, ''login'', now] (user_activity s)\<rparr>)"

text \<open>\<open>UPDATE users SET password=? WHERE id=?\<close>: a NULL id on either side matches no row.\<close>

definition update_password :: "string \<Rightarrow> sql_value \<Rightarrow> user_row list \<Rightarrow> user_row list" where
  "update_password hashed uid rows =
     map (\<lambda>r. if uid \<noteq> Null \<and> user_id r = uid then r\<lparr>password := Text hashed\<rparr> else r) rows"

definition check_credentials :: "string \<Rightarrow> faults \<Rightarrow> string \<Rightarrow> string \<Rightarrow> state
    \<Rightarrow> bool \<times> state" where
  "check_credentials now io uname pwd s =
     (case select_user uname (users s) of
        None \<Rightarrow> (False, s)
      | Some row \<Rightarrow>
          (case stored_hash (password row) of
             Some h \<Rightarrow>
               let ok = verify_password pwd h
               in (ok, if ok then log_login now io uname s else s)
           | None \<Rightarrow>
               if password row = Text pwd then
                 let s1 = (if write_error io = None
                           then s\<lparr>users := update_password (hash_password pwd) (user_id row) (users s)\<rparr>
                           else s)
                 in (True, log_login now io uname s1)
               else (False, s)))"

text \<open>The login form may submit several times; the results of the calls, in order.\<close>

fun logins :: "(string \<times> faults) list \<Rightarrow> string \<Rightarrow> string \<Rightarrow> state
    \<Rightarrow> bool list" where
  "logins [] uname pwd s = []"
| "logins ((now, io) # evs) uname pwd s =
     (let (ok, s') = check_credentials now io uname pwd s
      in ok # logins evs uname pwd s')"

section \<open>Session state\<close>

text \<open>
  The white space \<open>str.strip()\<close> removes, each character as the bytes of its UTF-8
  encoding: U+0009 to U+000D, U+001C to U+0020, U+0085, U+00A0, U+1680, U+2000 to U+200A,
  U+2028, U+2029, U+202F, U+205F and U+3000.
\<close>

definition white_space :: "string list" where
  "white_space = map (map char_of)
     [[0x09 :: nat], [0x0A], [0x0B], [0x0C], [0x0D], [0x1C], [0x1D], [0x1E], [0x1F], [0x20],
      [0xC2, 0x85], [0xC2, 0xA0], [0xE1, 0x9A, 0x80],
      [0xE2, 0x80, 0x80], [0xE2, 0x80, 0x81], [0xE2, 0x80, 0x82], [0xE2, 0x80, 0x83],
      [0xE2, 0x80, 0x84], [0xE2, 0x80, 0x85], [0xE2, 0x80, 0x86], [0xE2, 0x80, 0x87],
      [0xE2, 0x80, 0x88], [0xE2, 0x80, 0x89], [0xE2, 0x80, 0x8A], [0xE2, 0x80, 0xA8],
      [0xE2, 0x80, 0xA9], [0xE2, 0x80, 0xAF], [0xE2, 0x81, 0x9F], [0xE3, 0x80, 0x80]]"

text \<open>Removes from the front of a string every leading occurrence of one of the given words.\<close>

function drop_leading :: "string list \<Rightarrow> string \<Rightarrow> string" where
  "drop_leading ws s =
     (case find (\<lambda>w. w \<noteq> [] \<and> take (length w) s = w) ws of
        None \<Rightarrow> s
      | Some w \<Rightarrow> drop_leading ws (drop (length w) s))"
  by pat_completeness auto
termination
proof (relation "measure (\<lambda>(ws, s). length s)")
  show "wf (measure (\<lambda>(ws, s). length s))" by simp
next
  fix ws :: "string list" and s w :: string
  assume "find (\<lambda>w. w \<noteq> [] \<and> take (length w) s = w) ws = Some w"
  then have "w \<noteq> []" and "take (length w) s = w"
    by (auto simp: find_Some_iff)
  then have "s \<noteq> []" by auto
  with \<open>w \<noteq> []\<close> show "((ws, drop (length w) s), (ws, s)) \<in> measure (\<lambda>(ws, s). length s)"
    by simp
qed

definition strip :: "string \<Rightarrow> string" where
  "strip s = rev (drop_leading (map rev white_space) (rev (drop_leading white_space s)))"

record identity =
  ident_id :: sql_value
  ident_username :: sql_value

definition current_user :: "state \<Rightarrow> identity option" where
  "current_user s =
     (case current_user_file s of
        None \<Rightarrow> None
      | Some content \<Rightarrow>
          let uname = strip content
          in if uname \<noteq> [] then
               (case select_user uname (users s) of
                  Some row \<Rightarrow> Some \<lparr>ident_id = user_id row, ident_username = username row\<rparr>
                | None \<Rightarrow> None)
             else None)"

definition set_current_user :: "string \<Rightarrow> state \<Rightarrow> state" where
  "set_current_user uname s = s\<lparr>current_user_file := Some uname\<rparr>"

definition clear_current_user :: "state \<Rightarrow> state" where
  "clear_current_user s = s\<lparr>current_user_file := None\<rparr>"

section \<open>Feedback store\<close>

text \<open>
  save_feedback: the whole body is in a \<open>try\<close> whose handler returns \<open>(False, str(e))\<close>;
  inserting into a table that does not exist raises SQLite's "no such table" error.
\<close>

definition save_feedback :: "string \<Rightarrow> faults \<Rightarrow> string \<Rightarrow> string \<Rightarrow> state
    \<Rightarrow> (bool \<times> string) \<times> state" where
  "save_feedback now io uname fb s =
     (let uid = (if uname \<noteq> [] then
                   (case select_user uname (users s) of Some r \<Rightarrow> user_id r | None \<Rightarrow> Null)
                 else Null)
      in case feedback s of
           None \<Rightarrow> ((False, ''no such table: feedback''), s)
         | Some t \<Rightarrow>
             (case write_error io of
                Some e \<Rightarrow> ((False, e), s)
              | None \<Rightarrow>
                  let new_id = fold max (map fb_id (fb_rows t)) (fb_seq t) + 1;
                      row = \<lparr>fb_id = new_id, fb_username = uname,
                             fb_user_id = (if has_user_id t then uid else Null),
                             fb_text = fb, fb_at = now\<rparr>;
                      s1 = s\<lparr>feedback := Some (t\<lparr>fb_rows := fb_rows t @ [row], fb_seq := new_id\<rparr>)\<rparr>;
                      s2 = (if csv_error io then s1
                            else s1\<lparr>feedback_log :=
                                   append_csv [''username'', ''feedback'', ''feedback_at'']
                                     [uname, fb, now] (feedback_log s1)\<rparr>)
                  in ((True, ''Saved''), s2)))"

section \<open>Chart builder\<close>

datatype chart_type = Bar | Line | Pie | Scatter | Histogram | Box | Area | Violin
  | Density_Heatmap | Funnel | Sunburst | Treemap | Heatmap

text \<open>The plotly.express functions page_charts calls; they are library code.\<close>

datatype px_function = px_bar | px_line | px_pie | px_scatter | px_histogram | px_box | px_area
  | px_violin | px_density_heatmap | px_funnel | px_sunburst | px_treemap

text \<open>What the page shows the user: \<open>st.error\<close> and \<open>st.success\<close>.\<close>

datatype notice = Error string | Success string

record 'fig chart_session =
  last_chart :: "'fig option"
  last_chart_created :: bool

text \<open>\<open>if y_col:\<close> on an optional column label: None and the empty label are false.\<close>

definition selected :: "string option \<Rightarrow> bool" where
  "selected col = (case col of None \<Rightarrow> False | Some l \<Rightarrow> l \<noteq> [])"

definition plot_kwargs :: "chart_type \<Rightarrow> string \<Rightarrow> string option \<Rightarrow> string option
    \<Rightarrow> (string \<times> string) list" where
  "plot_kwargs kind x_col y_col color_col =
     (if kind = Pie then
        (''names'', x_col) # (if selected y_col then [(''values'', the y_col)] else [])
      else
        (''x'', x_col) # (if selected y_col then [(''y'', the y_col)] else [])
          @ (if selected color_col then [(''color'', the color_col)] else []))"

text \<open>
  The body of the \<open>try\<close> of the "Create Chart" button: a figure, a validation message
  (\<open>fig\<close> stays None) or the message of an exception plotly raised.
\<close>

datatype 'fig attempt = Made 'fig | Rejected string | Raised string

definition call_px :: "(px_function \<Rightarrow> 'df \<Rightarrow> (string \<times> string) list \<Rightarrow> string + 'fig)
    \<Rightarrow> px_function \<Rightarrow> 'df \<Rightarrow> (string \<times> string) list \<Rightarrow> 'fig attempt" where
  "call_px px f df kw = (case px f df kw of Inl e \<Rightarrow> Raised e | Inr fig \<Rightarrow> Made fig)"

definition build_figure :: "(px_function \<Rightarrow> 'df \<Rightarrow> (string \<times> string) list \<Rightarrow> string + 'fig)
    \<Rightarrow> 'df \<Rightarrow> chart_type \<Rightarrow> string \<Rightarrow> string option \<Rightarrow> string option \<Rightarrow> 'fig attempt" where
  "build_figure px df kind x_col y_col color_col =
     (let kw = plot_kwargs kind x_col y_col color_col
      in case kind of
           Bar \<Rightarrow> call_px px px_bar df kw
         | Line \<Rightarrow> call_px px px_line df kw
         | Pie \<Rightarrow> call_px px px_pie df kw
         | Scatter \<Rightarrow> call_px px px_scatter df kw
         | Histogram \<Rightarrow> call_px px px_histogram df kw
         | Box \<Rightarrow> call_px px px_box df kw
         | Area \<Rightarrow> call_px px px_area df kw
         | Violin \<Rightarrow> call_px px px_violin df kw
         | Density_Heatmap \<Rightarrow>
             if selected y_col
             then call_px px px_density_heatmap df [(''x'', x_col), (''y'', the y_col)]
             else Rejected ''Density Heatmap requires both X and Y numeric columns''
         | Funnel \<Rightarrow> call_px px px_funnel df kw
         | Sunburst \<Rightarrow> call_px px px_sunburst df [(''path'', x_col)]
         | Treemap \<Rightarrow> call_px px px_treemap df [(''path'', x_col)]
         | Heatmap \<Rightarrow>
             if selected y_col
             then call_px px px_density_heatmap df [(''x'', x_col), (''y'', the y_col)]
             else Rejected ''Heatmap requires both X and Y columns'')"

text \<open>
  page_charts when "Create Chart" is pressed: the notices shown and the chart session
  afterwards. Only a figure that was made is stored as the last chart.
\<close>

definition create_chart :: "(px_function \<Rightarrow> 'df \<Rightarrow> (string \<times> string) list \<Rightarrow> string + 'fig)
    \<Rightarrow> 'df \<Rightarrow> chart_type \<Rightarrow> string \<Rightarrow> string option \<Rightarrow> string option \<Rightarrow> 'fig chart_session
    \<Rightarrow> notice list \<times> 'fig chart_session" where
  "create_chart px df kind x_col y_col color_col sess =
     (case build_figure px df kind x_col y_col color_col of
        Made fig \<Rightarrow>
          ([Success ''Chart created''], sess\<lparr>last_chart := Some fig, last_chart_created := True\<rparr>)
      | Rejected m \<Rightarrow> ([Error m], sess)
      | Raised e \<Rightarrow> ([Error (''Chart creation failed: '' @ e)], sess))"

section \<open>Data analysis page\<close>

text \<open>
  A cell of an uploaded table: a missing value, a text or an integer (floating-point
  cells, and so integer columns with missing values, are not modelled). A table has its
  column labels and its rows, each row one cell per column.
\<close>

datatype cell = NaN | Str string | Num int

record dataframe =
  df_columns :: "string list"
  df_rows :: "cell list list"

datatype py_error = KeyError string | Re_Error | Pattern_Not_Modelled

fun str_nat :: "nat \<Rightarrow> string" where
  "str_nat n = (if n < 10 then [char_of (48 + n)] else str_nat (n div 10) @ [char_of (48 + n mod 10)])"

definition str_int :: "int \<Rightarrow> string" where
  "str_int i = (if i < 0 then CHR ''-'' # str_nat (nat (- i)) else str_nat (nat i))"

text \<open>\<open>astype(str)\<close> on one cell: a missing value becomes the text "nan".\<close>

definition astype_str :: "cell \<Rightarrow> string" where
  "astype_str c = (case c of NaN \<Rightarrow> ''nan'' | Str t \<Rightarrow> t | Num i \<Rightarrow> str_int i)"

text \<open>
  \<open>Series.str.contains(pat, case=False, na=False)\<close> keeps pandas' default \<open>regex=True\<close>:
  the pattern is compiled by Python's \<open>re\<close> with IGNORECASE and each text is tested with
  \<open>regex.search\<close>. The fragment of \<open>re\<close> modelled: a pattern of ordinary characters and
  dots compiles to literals and any-character-but-newline; a pattern that starts with a
  repeat character raises \<open>re.error\<close> ("nothing to repeat"); every other pattern that
  holds a special character is outside the model.
\<close>

datatype re_atom = Lit char | Any_Char

datatype re_compiled = Compiled "re_atom list" | Compile_Error | Not_Modelled

text \<open>The special characters of a pattern other than the dot; the last one is the backslash.\<close>

definition re_special :: "char list" where
  "re_special = ''^$*+?{}[]|()'' @ [CHR 0x5C]"

definition re_compile :: "string \<Rightarrow> re_compiled" where
  "re_compile pat =
     (if pat \<noteq> [] \<and> hd pat \<in> set ''*+?'' then Compile_Error
      else if list_all (\<lambda>c. c \<notin> set re_special) pat
      then Compiled (map (\<lambda>c. if c = CHR ''.'' then Any_Char else Lit c) pat)
      else Not_Modelled)"

fun atom_matches :: "re_atom \<Rightarrow> char \<Rightarrow> bool" where
  "atom_matches (Lit l) c = (lower_char l = lower_char c)"
| "atom_matches Any_Char c = (c \<noteq> CHR 0x0A)"

fun match_here :: "re_atom list \<Rightarrow> string \<Rightarrow> bool" where
  "match_here [] t = True"
| "match_here (a # as) [] = False"
| "match_here (a # as) (c # cs) = (atom_matches a c \<and> match_here as cs)"

fun re_search :: "re_atom list \<Rightarrow> string \<Rightarrow> bool" where
  "re_search p [] = match_here p []"
| "re_search p (c # cs) = (match_here p (c # cs) \<or> re_search p cs)"

definition col_index :: "string \<Rightarrow> string list \<Rightarrow> nat option" where
  "col_index label cols = (if label \<in> set cols then Some (length (takeWhile (\<lambda>c. c \<noteq> label) cols)) else None)"

definition cell_at :: "cell list \<Rightarrow> nat \<Rightarrow> cell" where
  "cell_at r j = (if j < length r then r ! j else NaN)"

text \<open>
  Lines 461 to 463 of page_analysis:
  \<^verbatim>\<open>filtered_df = df.copy()
  if search_val:
      filtered_df = filtered_df[filtered_df[search_col].astype(str)
                                  .str.contains(search_val, case=False, na=False)]\<close>
\<close>

definition search_filter :: "dataframe \<Rightarrow> string \<Rightarrow> string \<Rightarrow> py_error + dataframe" where
  "search_filter df search_col search_val =
     (if search_val = [] then Inr df
      else
        (case col_index search_col (df_columns df) of
           None \<Rightarrow> Inl (KeyError search_col)
         | Some j \<Rightarrow>
             (case re_compile search_val of
                Compile_Error \<Rightarrow> Inl Re_Error
              | Not_Modelled \<Rightarrow> Inl Pattern_Not_Modelled
              | Compiled p \<Rightarrow>
                  Inr (df\<lparr>df_rows := filter (\<lambda>r. re_search p (astype_str (cell_at r j))) (df_rows df)\<rparr>))))"

text \<open>
  The claim's reading of the filter, in the spec's words: the text contains the substring,
  compared case-insensitively.
\<close>

definition spec_contains :: "string \<Rightarrow> string \<Rightarrow> bool" where
  "spec_contains sub t =
     list_ex (\<lambda>i. take (length sub) (drop i (str_lower t)) = str_lower sub) [0..<Suc (length t)]"

text \<open>A Python slice \<open>xs[a:b]\<close>, as \<open>DataFrame.iloc[a:b]\<close> takes rows.\<close>

definition slice_index :: "nat \<Rightarrow> int \<Rightarrow> nat" where
  "slice_index n i = (if i < 0 then nat (max 0 (int n + i)) else min n (nat i))"

definition iloc :: "'a list \<Rightarrow> int \<Rightarrow> int \<Rightarrow> 'a list" where
  "iloc xs a b =
     (let lo = slice_index (length xs) a; hi = slice_index (length xs) b
      in take (hi - lo) (drop lo xs))"

text \<open>\<open>df[display_columns]\<close>: the listed columns in the listed order; a label that is no column raises KeyError.\<close>

definition select_columns :: "string list \<Rightarrow> dataframe \<Rightarrow> py_error + dataframe" where
  "select_columns labels df =
     (case find (\<lambda>l. l \<notin> set (df_columns df)) labels of
        Some l \<Rightarrow> Inl (KeyError l)
      | None \<Rightarrow>
          Inr \<lparr>df_columns = labels,
               df_rows = map (\<lambda>r. map (\<lambda>l. cell_at r (the (col_index l (df_columns df)))) labels) (df_rows df)\<rparr>)"

text \<open>
  What the page displays below "Select Data Range (Rows)": the message of \<open>st.info\<close>, if
  any, and the table given to \<open>st.dataframe\<close>.
\<close>

record analysis_view =
  info :: "string option"
  shown :: dataframe

text \<open>
  Lines 466 to 515 of page_analysis, after the filter. \<open>n\<close> is \<open>int(rows)\<close>, \<open>data_from\<close> the
  value the slider returns (a value between \<open>data_min\<close> and \<open>data_max\<close>).
\<close>

definition data_max :: "dataframe \<Rightarrow> int \<Rightarrow> int" where
  "data_max filtered_df n = max 0 (int (length (df_rows filtered_df)) - n)"

definition show_window :: "dataframe \<Rightarrow> int \<Rightarrow> int \<Rightarrow> string list \<Rightarrow> py_error + analysis_view" where
  "show_window filtered_df n data_from display_columns =
     (if data_max filtered_df n > 0 then
        (let data_to = data_from + n;
             filtered_range_df = filtered_df\<lparr>df_rows := iloc (df_rows filtered_df) data_from data_to\<rparr>
         in case select_columns display_columns filtered_range_df of
              Inl e \<Rightarrow> Inl e
            | Inr d \<Rightarrow> Inr \<lparr>info = None, shown = d\<rparr>)
      else
        Inr \<lparr>info = Some ''No data to display for the selected filters.'',
             shown = filtered_df\<lparr>df_rows := iloc (df_rows filtered_df) 0 0\<rparr>\<rparr>)"

definition page_analysis :: "dataframe \<Rightarrow> int \<Rightarrow> string \<Rightarrow> string \<Rightarrow> int \<Rightarrow> string list
    \<Rightarrow> py_error + analysis_view" where
  "page_analysis df n search_col search_val data_from display_columns =
     (case search_filter df search_col search_val of
        Inl e \<Rightarrow> Inl e
      | Inr filtered_df \<Rightarrow> show_window filtered_df n data_from display_columns)"

section \<open>Schema migration of the users table\<close>

text \<open>
  A users table as ensure_users_table may find it: the column names \<open>PRAGMA table_info\<close>
  lists and the rows in rowid order. A field of a row whose column the table lacks is
  never read. The database holds the table \<open>users\<close>, present or not, and possibly a table
  \<open>users_new\<close> that an earlier run of ensure_users_table created and did not rename: that
  table has the four columns and the constraints ensure_users_table gives it, so only
  its rows are recorded.
\<close>

record users_table =
  tbl_columns :: "string list"
  tbl_rows :: "user_row list"

record database =
  users_tbl :: "users_table option"
  users_new_tbl :: "user_row list option"

















section \<open>Concrete inputs\<close>

definition empty_state :: state where
  "empty_state = \<lparr>users = [], feedback = None, current_user_file = None,
     users_export = None, feedback_log = None, user_activity = None\<rparr>"

definition no_faults :: faults where
  "no_faults = \<lparr>write_error = None, csv_error = False\<rparr>"

definition csv_broken :: faults where
  "csv_broken = \<lparr>write_error = None, csv_error = True\<rparr>"

definition bob_row :: user_row where
  "bob_row = \<lparr>user_id = Integer 1, username = Text ''bob'', password = Text ''hunter2'',
     created_at = Text ''2024-06-01 09:00:00''\<rparr>"

definition alice_row :: user_row where
  "alice_row = \<lparr>user_id = Integer 2, username = Text ''alice'',
     password = Text (hash_password ''secret123''), created_at = Text ''2025-01-01 10:00:00''\<rparr>"

text \<open>A users table with a legacy plaintext row and a hashed row; the marker names alice.\<close>

definition two_users :: state where
  "two_users = empty_state\<lparr>users := [bob_row, alice_row], current_user_file := Some '' alice''\<rparr>"

definition demo_px :: "px_function \<Rightarrow> unit \<Rightarrow> (string \<times> string) list
    \<Rightarrow> string + (px_function \<times> (string \<times> string) list)" where
  "demo_px f df kw = Inr (f, kw)"

definition with_feedback :: state where
  "with_feedback = two_users\<lparr>feedback := Some \<lparr>has_user_id = True, fb_rows = [], fb_seq = 0\<rparr>\<rparr>"

text \<open>A table of ten rows and two columns.\<close>

definition pets :: dataframe where
  "pets = \<lparr>df_columns = [''name'', ''age''],
     df_rows = [[Str ''Rex'', Num 3], [Str ''Tom'', Num 5], [Str ''abc'', Num 7],
                [Str ''Mia'', Num 2], [Str ''Bo'', Num 12], [Str ''Kit'', Num 1],
                [Str ''Zed'', Num 9], [Str ''Oz'', Num 4], [Str ''Pip'', Num 6],
                [Str ''Lu'', Num 8]]\<rparr>"











text \<open>Users tables for check_credentials: a row whose id is NULL, and two rows that share an id.\<close>

definition null_id_user :: state where
  "null_id_user = empty_state\<lparr>users := [bob_row\<lparr>user_id := Null\<rparr>]\<rparr>"

definition shared_id_users :: state where
  "shared_id_users = empty_state\<lparr>users := [bob_row\<lparr>user_id := Integer 7\<rparr>,
     \<lparr>user_id = Integer 7, username = Text ''zoe'', password = Text ''zoe-secret'',
       created_at = Text ''2024-06-02 09:00:00''\<rparr>]\<rparr>"

definition write_fails :: faults where
  "write_fails = \<lparr>write_error = Some ''database is locked'', csv_error = False\<rparr>"

section \<open>Properties of the digest\<close>

lemma hex32_length: "length (hex32 w) = 8"
  by (simp add: hex32_def)

lemma hex32_chars: "c \<in> set (hex32 w) \<Longrightarrow> c \<in> set hexdigits"
proof -
  assume c: "c \<in> set (hex32 w)"
  have lt: "unat (x AND 0xF) < 16" for x :: w32
  proof -
    have "x AND 0xF \<le> 0xF" by (rule word_and_le1)
    then have "unat (x AND 0xF) \<le> unat (0xF :: w32)" by (simp add: word_le_nat_alt)
    then show ?thesis by simp
  qed
  have len: "length hexdigits = 16" by (simp add: hexdigits_def)
  have "hexdigits ! unat (x AND 0xF) \<in> set hexdigits" for x :: w32
    using lt [of x] len by (metis nth_mem)
  with c show ?thesis unfolding hex32_def by auto
qed

lemma hexdigest_length: "length (hexdigest st) = 64"
  by (simp add: hexdigest_def hex32_length split: prod.splits)

lemma hexdigest_chars: "c \<in> set (hexdigest st) \<Longrightarrow> c \<in> set hexdigits"
  unfolding hexdigest_def by (auto split: prod.splits dest: hex32_chars)

text \<open>The digest of FIPS 180-4's one-block example message.\<close>

lemma sha256_abc:
  "sha256_hexdigest (encode_utf8 ''abc'')
     = ''ba7816bf8f01cfea414140de5dae2223b00361a396177a9cb410ff61f20015ad''"
  by code_simp

lemma hash_password_length: "length (hash_password pwd) = 64"
  by (simp add: hash_password_def sha256_hexdigest_def hexdigest_length)

lemma lower_hexdigits: "list_all (\<lambda>c. lower_char c = c) hexdigits"
  by code_simp

lemma lower_char_hex: "c \<in> set hexdigits \<Longrightarrow> lower_char c = c"
  using lower_hexdigits by (simp add: list_all_iff)

text \<open>A stored digest passes the hash-shape test of check_credentials.\<close>

lemma stored_hash_digest: "stored_hash (Text (hash_password pwd)) = Some (hash_password pwd)"
proof -
  have hex: "\<forall>c \<in> set (hash_password pwd). c \<in> set hexdigits"
    using hexdigest_chars by (auto simp: hash_password_def sha256_hexdigest_def)
  have "str_lower (hash_password pwd) = hash_password pwd"
    unfolding str_lower_def using hex lower_char_hex by (simp add: map_idI)
  with hex have "list_all (\<lambda>c. c \<in> set hexdigits) (str_lower (hash_password pwd))"
    by (simp add: list_all_iff)
  moreover have "hash_password pwd \<noteq> []"
    using hash_password_length [of pwd] by auto
  ultimately show ?thesis
    using hash_password_length [of pwd] by (simp add: stored_hash_def)
qed

section \<open>Properties of the credential store\<close>

lemma find_append_None:
  "find P xs = None \<Longrightarrow> find P (xs @ ys) = find P ys"
  by (induction xs) (auto split: if_splits)

lemma users_log_login: "users (log_login now io u s) = users s"
  by (simp add: log_login_def)

lemma select_user_update_password:
  "select_user u (update_password h uid rows) =
     map_option (\<lambda>r. if uid \<noteq> Null \<and> user_id r = uid then r\<lparr>password := Text h\<rparr> else r)
       (select_user u rows)"
  by (induction rows) (auto simp: select_user_def update_password_def)

lemma check_hashed_ok:
  assumes "select_user uname (users s) = Some row"
    and "password row = Text (hash_password pwd)"
  shows "check_credentials now io uname pwd s = (True, log_login now io uname s)"
proof -
  have "stored_hash (password row) = Some (hash_password pwd)"
    using assms(2) by (simp add: stored_hash_digest)
  with assms(1) show ?thesis
    by (simp add: check_credentials_def verify_password_def hash_password_def)
qed

lemma logins_hashed:
  assumes "select_user uname (users s) = Some row"
    and "password row = Text (hash_password pwd)"
  shows "list_all id (logins evs uname pwd s)"
  using assms(1)
proof (induction evs arbitrary: s)
  case Nil
  then show ?case by simp
next
  case (Cons ev evs)
  obtain now io where ev: "ev = (now, io)" by (cases ev)
  have sel: "select_user uname (users (log_login now io uname s)) = Some row"
    using Cons.prems by (simp add: users_log_login)
  show ?case
    using Cons.IH [OF sel] check_hashed_ok [OF Cons.prems assms(2)]
    by (simp add: ev)
qed

text \<open>
  C2 (password round trip). When signup of a user with a password succeeds,
  check_credentials with the same user and password, run on the state signup left,
  returns True, whatever the time and the environment of the second call.
\<close>

theorem signup_then_check_credentials:
  assumes "signup now io uname pwd s = ((True, msg), s')"
  shows "fst (check_credentials now' io' uname pwd s')"
proof -
  from assms(1) have absent: "select_user uname (users s) = None"
    by (auto simp: signup_def split: if_splits option.splits)
  from assms(1) absent have "users s' = users s @
      [\<lparr>user_id = Integer (next_id (users s)), username = Text uname,
        password = Text (hash_password pwd), created_at = Text now\<rparr>]"
    by (auto simp: signup_def Let_def split: if_splits option.splits)
  with absent have sel: "select_user uname (users s') =
      Some \<lparr>user_id = Integer (next_id (users s)), username = Text uname,
        password = Text (hash_password pwd), created_at = Text now\<rparr>"
    by (simp add: select_user_def find_append_None)
  show ?thesis
    using check_hashed_ok [OF sel] by simp
qed

theorem signup_then_check_credentials_witness:
  "fst (fst (signup ''2025-01-01 10:00:00'' csv_broken ''alice'' ''secret123'' empty_state))
   \<and> fst (check_credentials ''2025-01-01 10:05:00'' no_faults ''alice'' ''secret123''
        (snd (signup ''2025-01-01 10:00:00'' csv_broken ''alice'' ''secret123'' empty_state)))"
proof -
  have made: "signup ''2025-01-01 10:00:00'' csv_broken ''alice'' ''secret123'' empty_state
      = ((True, ''Account created''),
         snd (signup ''2025-01-01 10:00:00'' csv_broken ''alice'' ''secret123'' empty_state))"
    by (simp add: signup_def select_user_def empty_state_def csv_broken_def)
  have created: "fst (fst (signup ''2025-01-01 10:00:00'' csv_broken ''alice'' ''secret123'' empty_state))"
    by (simp add: signup_def select_user_def empty_state_def csv_broken_def)
  from signup_then_check_credentials [OF made] created show ?thesis
    by blast
qed

lemma select_user_mem: "select_user u rows = Some r \<Longrightarrow> r \<in> set rows \<and> username r = Text u"
  by (auto simp: select_user_def find_Some_iff)

lemma select_user_None_iff: "select_user u rows = None \<longleftrightarrow> Text u \<notin> username ` set rows"
  by (force simp: select_user_def find_None_iff)

lemma update_password_null: "update_password h Null rows = rows"
  by (simp add: update_password_def)

lemma check_legacy_ok:
  assumes "select_user uname (users s) = Some row"
    and "password row = Text pwd"
    and "stored_hash (Text pwd) = None"
  shows "check_credentials now io uname pwd s =
     (True, log_login now io uname
        (if write_error io = None
         then s\<lparr>users := update_password (hash_password pwd) (user_id row) (users s)\<rparr>
         else s))"
  using assms by (simp add: check_credentials_def)

text \<open>
  While the stored value of the user is the legacy plaintext or its digest, every login
  with the password succeeds and leaves it one of the two.
\<close>

lemma logins_known:
  assumes legacy: "stored_hash (Text pwd) = None"
    and "select_user uname (users s) = Some row"
    and "password row = Text pwd \<or> password row = Text (hash_password pwd)"
  shows "list_all id (logins evs uname pwd s)"
  using assms(2,3)
proof (induction evs arbitrary: s row)
  case Nil
  then show ?case by simp
next
  case (Cons ev evs)
  obtain now io where ev: "ev = (now, io)" by (cases ev)
  from Cons.prems(2) show ?case
  proof
    assume plain: "password row = Text pwd"
    let ?f = "\<lambda>r. if user_id row \<noteq> Null \<and> user_id r = user_id row
                  then r\<lparr>password := Text (hash_password pwd)\<rparr> else r"
    define s1 where "s1 = (if write_error io = None
               then s\<lparr>users := update_password (hash_password pwd) (user_id row) (users s)\<rparr>
               else s)"
    have run: "check_credentials now io uname pwd s = (True, log_login now io uname s1)"
      unfolding s1_def by (rule check_legacy_ok [OF Cons.prems(1) plain legacy])
    have "select_user uname (users (log_login now io uname s1)) = Some (?f row)
        \<or> select_user uname (users (log_login now io uname s1)) = Some row"
      using Cons.prems(1) by (simp add: s1_def users_log_login select_user_update_password)
    moreover have "password (?f row) = Text pwd \<or> password (?f row) = Text (hash_password pwd)"
      using plain by simp
    ultimately have "list_all id (logins evs uname pwd (log_login now io uname s1))"
      using Cons.IH plain by blast
    moreover have "logins (ev # evs) uname pwd s
        = True # logins evs uname pwd (log_login now io uname s1)"
      by (simp add: ev run)
    ultimately show ?thesis by (simp only: list_all_Cons_iff id_apply [of True] simp_thms)
  next
    assume hashed: "password row = Text (hash_password pwd)"
    have run: "check_credentials now io uname pwd s = (True, log_login now io uname s)"
      by (rule check_hashed_ok [OF Cons.prems(1) hashed])
    have "select_user uname (users (log_login now io uname s)) = Some row"
      using Cons.prems(1) by (simp add: users_log_login)
    then have "list_all id (logins evs uname pwd (log_login now io uname s))"
      using Cons.IH hashed by blast
    moreover have "logins (ev # evs) uname pwd s
        = True # logins evs uname pwd (log_login now io uname s)"
      by (simp add: ev run)
    ultimately show ?thesis by (simp only: list_all_Cons_iff id_apply [of True] simp_thms)
  qed
qed

text \<open>
  C3 (lazy migration on login), as amended. Take a user whose stored password is the
  plaintext of the password, in the legacy format (it does not have the shape of a hash).
  The first check_credentials with the password returns True. When the UPDATE of that
  call does not raise and the id of the row is not NULL, the stored value of the user is
  afterwards the digest of the password, which differs from the password; when the UPDATE
  raises or the id is NULL, the users table is left as it was. In both cases every later
  check_credentials with the password returns True, whatever the environment does.
\<close>

theorem legacy_password_migrates_on_login:
  assumes sel: "select_user uname (users s) = Some row"
    and plain: "password row = Text pwd"
    and legacy: "stored_hash (Text pwd) = None"
  shows "fst (check_credentials now io uname pwd s)
     \<and> (write_error io = None \<and> user_id row \<noteq> Null \<longrightarrow>
          map_option password (select_user uname (users (snd (check_credentials now io uname pwd s))))
            = Some (Text (hash_password pwd))
          \<and> hash_password pwd \<noteq> pwd)
     \<and> (write_error io \<noteq> None \<or> user_id row = Null \<longrightarrow>
          users (snd (check_credentials now io uname pwd s)) = users s)
     \<and> list_all id (logins evs uname pwd (snd (check_credentials now io uname pwd s)))"
proof -
  let ?h = "hash_password pwd"
  define s1 where "s1 = (if write_error io = None
             then s\<lparr>users := update_password ?h (user_id row) (users s)\<rparr> else s)"
  have run: "check_credentials now io uname pwd s = (True, log_login now io uname s1)"
    unfolding s1_def by (rule check_legacy_ok [OF sel plain legacy])
  have first: "fst (check_credentials now io uname pwd s)"
    by (simp add: run)
  have after: "users (snd (check_credentials now io uname pwd s)) = users s1"
    by (simp add: run users_log_login)
  have migrated: "map_option password (select_user uname (users s1)) = Some (Text ?h)"
    if "write_error io = None \<and> user_id row \<noteq> Null"
    using that sel by (simp add: s1_def select_user_update_password)
  have neq: "?h \<noteq> pwd"
    using legacy stored_hash_digest [of pwd] by auto
  have kept: "users s1 = users s" if "write_error io \<noteq> None \<or> user_id row = Null"
    using that by (auto simp: s1_def update_password_null)
  have "list_all id (logins ((now, io) # evs) uname pwd s)"
    using logins_known [OF legacy sel] plain by blast
  moreover have "logins ((now, io) # evs) uname pwd s
      = True # logins evs uname pwd (snd (check_credentials now io uname pwd s))"
    by (simp add: run)
  ultimately have later: "list_all id (logins evs uname pwd (snd (check_credentials now io uname pwd s)))"
    by (simp only: list_all_Cons_iff)
  from first migrated neq kept later show ?thesis
    unfolding after by blast
qed

theorem legacy_password_migrates_on_login_witness:
  "select_user ''bob'' (users two_users) = Some bob_row
   \<and> password bob_row = Text ''hunter2''
   \<and> stored_hash (Text ''hunter2'') = None
   \<and> write_error csv_broken = None
   \<and> user_id bob_row \<noteq> Null
   \<and> fst (check_credentials ''2025-02-01 08:00:00'' csv_broken ''bob'' ''hunter2'' two_users)
   \<and> map_option password (select_user ''bob''
         (users (snd (check_credentials ''2025-02-01 08:00:00'' csv_broken ''bob'' ''hunter2'' two_users))))
       = Some (Text (hash_password ''hunter2''))
   \<and> hash_password ''hunter2'' \<noteq> ''hunter2''
   \<and> list_all id (logins [(''2025-02-02 08:00:00'', write_fails), (''2025-02-03 08:00:00'', csv_broken)]
         ''bob'' ''hunter2''
         (snd (check_credentials ''2025-02-01 08:00:00'' csv_broken ''bob'' ''hunter2'' two_users)))"
proof -
  have sel: "select_user ''bob'' (users two_users) = Some bob_row"
    by (simp add: select_user_def two_users_def bob_row_def)
  have plain: "password bob_row = Text ''hunter2''"
    by (simp add: bob_row_def)
  have legacy: "stored_hash (Text ''hunter2'') = None"
    by (simp add: stored_hash_def)
  have key: "user_id bob_row \<noteq> Null"
    by (simp add: bob_row_def)
  have wr: "write_error csv_broken = None"
    by (simp add: csv_broken_def)
  from legacy_password_migrates_on_login [OF sel plain legacy] sel plain legacy key wr
  show ?thesis by blast
qed

text \<open>
  C3 as stated fails: when the UPDATE raises, and when the id of the row is NULL, the login
  with the plaintext returns True and the stored value is still the plaintext.
\<close>

theorem legacy_login_keeps_plaintext:
  "fst (check_credentials ''2025-02-01 08:00:00'' write_fails ''bob'' ''hunter2'' two_users)
   \<and> map_option password (select_user ''bob''
         (users (snd (check_credentials ''2025-02-01 08:00:00'' write_fails ''bob'' ''hunter2'' two_users))))
       = Some (Text ''hunter2'')
   \<and> fst (check_credentials ''2025-02-01 08:00:00'' no_faults ''bob'' ''hunter2'' null_id_user)
   \<and> map_option password (select_user ''bob''
         (users (snd (check_credentials ''2025-02-01 08:00:00'' no_faults ''bob'' ''hunter2'' null_id_user))))
       = Some (Text ''hunter2'')"
  by (simp add: check_credentials_def select_user_def two_users_def null_id_user_def empty_state_def
      bob_row_def alice_row_def stored_hash_def write_fails_def no_faults_def update_password_def
      users_log_login)

lemma count_unique:
  "distinct (map f xs) \<Longrightarrow> v \<in> f ` set xs \<Longrightarrow> length (filter (\<lambda>r. f r = v) xs) = 1"
proof (induction xs)
  case Nil
  then show ?case by simp
next
  case (Cons x xs)
  show ?case
  proof (cases "f x = v")
    case True
    with Cons.prems have "v \<notin> f ` set xs" by simp
    then have "\<forall>r \<in> set xs. f r \<noteq> v" by blast
    then have "filter (\<lambda>r. f r = v) xs = []" by (simp add: filter_empty_conv)
    with True show ?thesis by simp
  next
    case False
    with Cons show ?thesis by auto
  qed
qed

text \<open>
  C4 (duplicate signup). When a row with the username exists, signup fails with
  "Username already exists" and leaves the state as it is; with the usernames of the table
  unique (the UNIQUE constraint), the table still has exactly one row with that username.
\<close>

theorem duplicate_signup_rejected:
  assumes "Text uname \<in> username ` set (users s)"
    and "distinct (map username (users s))"
  shows "signup now io uname pwd s = ((False, ''Username already exists''), s)
     \<and> length (filter (\<lambda>r. username r = Text uname) (users (snd (signup now io uname pwd s)))) = 1"
proof -
  from assms(1) have "select_user uname (users s) \<noteq> None"
    by (simp add: select_user_None_iff)
  then have run: "signup now io uname pwd s = ((False, ''Username already exists''), s)"
    by (simp add: signup_def)
  have "length (filter (\<lambda>r. username r = Text uname) (users s)) = 1"
    using assms by (rule_tac count_unique) auto
  with run show ?thesis by simp
qed

theorem duplicate_signup_rejected_witness:
  "Text ''alice'' \<in> username ` set (users two_users)
   \<and> distinct (map username (users two_users))
   \<and> signup ''2025-03-01 12:00:00'' no_faults ''alice'' ''other'' two_users
       = ((False, ''Username already exists''), two_users)
   \<and> length (filter (\<lambda>r. username r = Text ''alice'')
        (users (snd (signup ''2025-03-01 12:00:00'' no_faults ''alice'' ''other'' two_users)))) = 1"
proof -
  have ex: "Text ''alice'' \<in> username ` set (users two_users)"
    by (simp add: two_users_def alice_row_def bob_row_def)
  have uniq: "distinct (map username (users two_users))"
    by (simp add: two_users_def alice_row_def bob_row_def)
  from duplicate_signup_rejected [OF ex uniq] ex uniq show ?thesis by blast
qed

lemma update_password_nth:
  assumes "i < length rows"
  shows "update_password h uid rows ! i =
     (if uid \<noteq> Null \<and> user_id (rows ! i) = uid then (rows ! i)\<lparr>password := Text h\<rparr> else rows ! i)"
  using assms by (simp add: update_password_def)

text \<open>
  C9 (frame of check_credentials), as amended. When the stored password of the user has
  the hash shape, check_credentials leaves the users table as it is, whether it returns
  True or False. The table never changes its length. A row that differs after the call
  has the id of the row of the user being verified, which is not NULL; that user held a
  legacy plaintext equal to the password; the call returned True; and only the password of
  the row changed, to the digest. When the ids of the table are distinct, the row that
  differs is the row of the user being verified.
\<close>

theorem check_credentials_frame:
  "(\<forall>row h. select_user uname (users s) = Some row \<and> stored_hash (password row) = Some h
       \<longrightarrow> users (snd (check_credentials now io uname pwd s)) = users s)
   \<and> length (users (snd (check_credentials now io uname pwd s))) = length (users s)
   \<and> (\<forall>i < length (users s).
        users (snd (check_credentials now io uname pwd s)) ! i \<noteq> users s ! i \<longrightarrow>
          (\<exists>row. select_user uname (users s) = Some row
             \<and> stored_hash (password row) = None
             \<and> password row = Text pwd
             \<and> fst (check_credentials now io uname pwd s)
             \<and> user_id row \<noteq> Null
             \<and> user_id (users s ! i) = user_id row
             \<and> users (snd (check_credentials now io uname pwd s)) ! i
                  = (users s ! i)\<lparr>password := Text (hash_password pwd)\<rparr>
             \<and> (distinct (map user_id (users s)) \<longrightarrow> users s ! i = row)))"
proof (cases "select_user uname (users s)")
  case None
  then show ?thesis by (simp add: check_credentials_def)
next
  case (Some row)
  show ?thesis
  proof (cases "stored_hash (password row)")
    case (Some h)
    with \<open>select_user uname (users s) = Some row\<close> show ?thesis
      by (simp add: check_credentials_def Let_def users_log_login)
  next
    case None
    note legacy = this
    show ?thesis
    proof (cases "password row = Text pwd \<and> write_error io = None")
      case False
      with legacy \<open>select_user uname (users s) = Some row\<close> show ?thesis
        by (auto simp: check_credentials_def Let_def users_log_login)
    next
      case True
      let ?h = "hash_password pwd"
      have run: "check_credentials now io uname pwd s =
          (True, log_login now io uname (s\<lparr>users := update_password ?h (user_id row) (users s)\<rparr>))"
        using True legacy \<open>select_user uname (users s) = Some row\<close>
        by (simp add: check_credentials_def)
      have after: "users (snd (check_credentials now io uname pwd s)) =
          update_password ?h (user_id row) (users s)"
        by (simp add: run users_log_login)
      have row_in: "row \<in> set (users s)"
        using \<open>select_user uname (users s) = Some row\<close> select_user_mem by blast
      have only: "users s ! i = row"
        if "i < length (users s)" and "user_id (users s ! i) = user_id row"
          and "distinct (map user_id (users s))" for i
      proof -
        from row_in obtain j where j: "j < length (users s)" "users s ! j = row"
          by (auto simp: in_set_conv_nth)
        have "map user_id (users s) ! i = map user_id (users s) ! j"
          using that j by simp
        moreover have "i < length (map user_id (users s))" "j < length (map user_id (users s))"
          using that(1) j(1) by simp_all
        ultimately have "i = j"
          using that(3) nth_eq_iff_index_eq by blast
        with j show ?thesis by simp
      qed
      have one: "\<forall>row h. select_user uname (users s) = Some row \<and> stored_hash (password row) = Some h
            \<longrightarrow> users (snd (check_credentials now io uname pwd s)) = users s"
        using legacy \<open>select_user uname (users s) = Some row\<close> by simp
      have two: "length (users (snd (check_credentials now io uname pwd s))) = length (users s)"
        by (simp add: after update_password_def)
      have three: "\<exists>row. select_user uname (users s) = Some row
             \<and> stored_hash (password row) = None
             \<and> password row = Text pwd
             \<and> fst (check_credentials now io uname pwd s)
             \<and> user_id row \<noteq> Null
             \<and> user_id (users s ! i) = user_id row
             \<and> users (snd (check_credentials now io uname pwd s)) ! i
                  = (users s ! i)\<lparr>password := Text ?h\<rparr>
             \<and> (distinct (map user_id (users s)) \<longrightarrow> users s ! i = row)"
        if i: "i < length (users s)"
          and ch: "users (snd (check_credentials now io uname pwd s)) ! i \<noteq> users s ! i" for i
      proof -
        from ch have hit: "user_id row \<noteq> Null \<and> user_id (users s ! i) = user_id row"
          unfolding after update_password_nth [OF i] by (simp split: if_splits)
        have new: "users (snd (check_credentials now io uname pwd s)) ! i
            = (users s ! i)\<lparr>password := Text ?h\<rparr>"
          unfolding after update_password_nth [OF i] using hit by simp
        have "distinct (map user_id (users s)) \<longrightarrow> users s ! i = row"
          using only [OF i] hit by blast
        with hit new True legacy \<open>select_user uname (users s) = Some row\<close> run show ?thesis
          by simp
      qed
      from one two three show ?thesis by blast
    qed
  qed
qed

theorem check_credentials_frame_witness:
  "select_user ''alice'' (users two_users) = Some alice_row
   \<and> stored_hash (password alice_row) = Some (hash_password ''secret123'')
   \<and> users (snd (check_credentials ''2025-02-01 08:00:00'' no_faults ''alice'' ''secret123'' two_users))
       = users two_users
   \<and> 0 < length (users two_users)
   \<and> distinct (map user_id (users two_users))
   \<and> users (snd (check_credentials ''2025-02-01 08:00:00'' no_faults ''bob'' ''hunter2'' two_users)) ! 0
       \<noteq> users two_users ! 0
   \<and> select_user ''bob'' (users two_users) = Some (users two_users ! 0)
   \<and> users (snd (check_credentials ''2025-02-01 08:00:00'' no_faults ''bob'' ''hunter2'' two_users)) ! 0
       = (users two_users ! 0)\<lparr>password := Text (hash_password ''hunter2'')\<rparr>"
proof -
  have pk: "distinct (map user_id (users two_users))"
    by (simp add: two_users_def alice_row_def bob_row_def)
  have sel: "select_user ''alice'' (users two_users) = Some alice_row"
    by (simp add: select_user_def two_users_def alice_row_def bob_row_def)
  have hashed: "stored_hash (password alice_row) = Some (hash_password ''secret123'')"
    by (simp add: alice_row_def stored_hash_digest)
  have len: "0 < length (users two_users)"
    by (simp add: two_users_def)
  have "length (hash_password ''hunter2'') \<noteq> length ''hunter2''"
    unfolding hash_password_length by simp
  then have digest: "hash_password ''hunter2'' \<noteq> ''hunter2''"
    by auto
  have changed: "users (snd (check_credentials ''2025-02-01 08:00:00'' no_faults ''bob'' ''hunter2'' two_users)) ! 0
       \<noteq> users two_users ! 0"
    using digest
    by (simp add: check_credentials_def select_user_def two_users_def empty_state_def bob_row_def
        alice_row_def stored_hash_def no_faults_def update_password_def users_log_login)
  from check_credentials_frame [of "''alice''" two_users "''2025-02-01 08:00:00''" no_faults "''secret123''"]
    sel hashed
  have same: "users (snd (check_credentials ''2025-02-01 08:00:00'' no_faults ''alice'' ''secret123'' two_users))
       = users two_users"
    by blast
  from check_credentials_frame [of "''bob''" two_users "''2025-02-01 08:00:00''" no_faults "''hunter2''"]
    len changed pk
  have "select_user ''bob'' (users two_users) = Some (users two_users ! 0)
     \<and> users (snd (check_credentials ''2025-02-01 08:00:00'' no_faults ''bob'' ''hunter2'' two_users)) ! 0
       = (users two_users ! 0)\<lparr>password := Text (hash_password ''hunter2'')\<rparr>"
    by blast
  with pk sel hashed len changed same show ?thesis by blast
qed

text \<open>
  C9 as stated fails: in a table where the row of another user has the id of the user
  being verified, the login rewrites the password of that other user as well.
\<close>

theorem shared_id_rewrites_other_user:
  "username (users shared_id_users ! 1) = Text ''zoe''
   \<and> password (users shared_id_users ! 1) = Text ''zoe-secret''
   \<and> fst (check_credentials ''2025-02-01 08:00:00'' no_faults ''bob'' ''hunter2'' shared_id_users)
   \<and> password (users (snd (check_credentials ''2025-02-01 08:00:00'' no_faults ''bob'' ''hunter2''
         shared_id_users)) ! 1) = Text (hash_password ''hunter2'')
   \<and> hash_password ''hunter2'' \<noteq> ''zoe-secret''"
proof -
  have "length (hash_password ''hunter2'') \<noteq> length ''zoe-secret''"
    unfolding hash_password_length by simp
  then have "hash_password ''hunter2'' \<noteq> ''zoe-secret''"
    by auto
  then show ?thesis
    by (simp add: check_credentials_def select_user_def shared_id_users_def empty_state_def
        bob_row_def stored_hash_def no_faults_def update_password_def users_log_login)
qed

section \<open>Properties of the session, the feedback store and the chart builder\<close>

text \<open>
  C8 (session resolution). current_user returns an identity exactly when the marker file
  exists, its trimmed content is not empty and a row of the users table has that username;
  in particular a marker that names a username absent from the table gives None; and the
  identity returned carries the trimmed content as its username.
\<close>

theorem current_user_resolution:
  "(current_user s \<noteq> None \<longleftrightarrow>
      (\<exists>content. current_user_file s = Some content \<and> strip content \<noteq> []
         \<and> Text (strip content) \<in> username ` set (users s)))
   \<and> (\<forall>content. current_user_file s = Some content
         \<and> Text (strip content) \<notin> username ` set (users s) \<longrightarrow> current_user s = None)
   \<and> (\<forall>who. current_user s = Some who \<longrightarrow>
         (\<exists>content. current_user_file s = Some content \<and> ident_username who = Text (strip content)))"
proof (cases "current_user_file s")
  case None
  then show ?thesis by (simp add: current_user_def)
next
  case (Some content)
  show ?thesis
  proof (cases "select_user (strip content) (users s)")
    case None
    then have "Text (strip content) \<notin> username ` set (users s)"
      by (simp add: select_user_None_iff)
    with None Some show ?thesis by (simp add: current_user_def Let_def)
  next
    case (Some row)
    then have "Text (strip content) \<in> username ` set (users s)" "username row = Text (strip content)"
      using select_user_mem by force+
    with Some \<open>current_user_file s = Some content\<close> show ?thesis
      by (auto simp: current_user_def Let_def)
  qed
qed

theorem current_user_resolution_witness:
  "current_user two_users \<noteq> None
   \<and> current_user_file two_users = Some '' alice''
   \<and> strip '' alice'' = ''alice''
   \<and> Text ''alice'' \<in> username ` set (users two_users)
   \<and> current_user_file (set_current_user ''carol'' two_users) = Some ''carol''
   \<and> Text (strip ''carol'') \<notin> username ` set (users (set_current_user ''carol'' two_users))
   \<and> current_user (set_current_user ''carol'' two_users) = None"
proof -
  have marker: "current_user_file two_users = Some '' alice''"
    by (simp add: two_users_def)
  have trimmed: "strip '' alice'' = ''alice''"
    by code_simp
  have known: "Text ''alice'' \<in> username ` set (users two_users)"
    by (simp add: two_users_def alice_row_def bob_row_def)
  have marker': "current_user_file (set_current_user ''carol'' two_users) = Some ''carol''"
    by (simp add: set_current_user_def)
  have stale: "Text (strip ''carol'') \<notin> username ` set (users (set_current_user ''carol'' two_users))"
  proof -
    have "strip ''carol'' = ''carol''" by code_simp
    then show ?thesis
      by (simp add: set_current_user_def two_users_def alice_row_def bob_row_def)
  qed
  from current_user_resolution [of two_users] marker trimmed known
  have "current_user two_users \<noteq> None" by auto
  moreover from current_user_resolution [of "set_current_user ''carol'' two_users"] marker' stale
  have "current_user (set_current_user ''carol'' two_users) = None" by blast
  ultimately show ?thesis using marker trimmed known marker' stale by blast
qed

text \<open>
  C7 (best-effort mirrors). When the users insert of signup succeeds (the username is
  absent and the write does not raise), signup reports success although the users export
  append raises, and the users table is the one of a run whose append works; the same for
  save_feedback and the feedback log when the feedback insert succeeds; and the result and
  the users table of check_credentials do not depend on whether the login activity append
  raises.
\<close>

theorem mirror_failure_not_propagated:
  "(select_user uname (users s) = None \<and> write_error io = None \<longrightarrow>
      fst (signup now (io\<lparr>csv_error := True\<rparr>) uname pwd s) = (True, ''Account created'')
      \<and> users (snd (signup now (io\<lparr>csv_error := True\<rparr>) uname pwd s))
          = users (snd (signup now (io\<lparr>csv_error := False\<rparr>) uname pwd s))
      \<and> select_user uname (users (snd (signup now (io\<lparr>csv_error := True\<rparr>) uname pwd s))) \<noteq> None)
   \<and> (feedback s \<noteq> None \<and> write_error io = None \<longrightarrow>
      fst (save_feedback now (io\<lparr>csv_error := True\<rparr>) uname fb s) = (True, ''Saved'')
      \<and> feedback (snd (save_feedback now (io\<lparr>csv_error := True\<rparr>) uname fb s))
          = feedback (snd (save_feedback now (io\<lparr>csv_error := False\<rparr>) uname fb s))
      \<and> feedback (snd (save_feedback now (io\<lparr>csv_error := True\<rparr>) uname fb s)) \<noteq> feedback s)
   \<and> fst (check_credentials now (io\<lparr>csv_error := True\<rparr>) uname pwd s)
        = fst (check_credentials now (io\<lparr>csv_error := False\<rparr>) uname pwd s)
   \<and> users (snd (check_credentials now (io\<lparr>csv_error := True\<rparr>) uname pwd s))
        = users (snd (check_credentials now (io\<lparr>csv_error := False\<rparr>) uname pwd s))"
proof -
  have a: "fst (signup now (io\<lparr>csv_error := True\<rparr>) uname pwd s) = (True, ''Account created'')
      \<and> users (snd (signup now (io\<lparr>csv_error := True\<rparr>) uname pwd s))
          = users (snd (signup now (io\<lparr>csv_error := False\<rparr>) uname pwd s))
      \<and> select_user uname (users (snd (signup now (io\<lparr>csv_error := True\<rparr>) uname pwd s))) \<noteq> None"
    if "select_user uname (users s) = None" "write_error io = None"
    using that by (simp add: signup_def Let_def select_user_def find_append_None)
  have b: "fst (save_feedback now (io\<lparr>csv_error := True\<rparr>) uname fb s) = (True, ''Saved'')
      \<and> feedback (snd (save_feedback now (io\<lparr>csv_error := True\<rparr>) uname fb s))
          = feedback (snd (save_feedback now (io\<lparr>csv_error := False\<rparr>) uname fb s))
      \<and> feedback (snd (save_feedback now (io\<lparr>csv_error := True\<rparr>) uname fb s)) \<noteq> feedback s"
    if "feedback s \<noteq> None" "write_error io = None"
  proof -
    from that(1) obtain t where t: "feedback s = Some t" by auto
    have "fb_rows t @ [r] \<noteq> fb_rows t" for r by simp
    then have "t\<lparr>fb_rows := fb_rows t @ [r], fb_seq := n\<rparr> \<noteq> t" for r n
      by (metis feedback_table.select_convs(2) feedback_table.surjective feedback_table.update_convs(2) feedback_table.update_convs(3))
    with t that(2) show ?thesis
      by (simp add: save_feedback_def Let_def)
  qed
  have c: "fst (check_credentials now (io\<lparr>csv_error := True\<rparr>) uname pwd s)
        = fst (check_credentials now (io\<lparr>csv_error := False\<rparr>) uname pwd s)
   \<and> users (snd (check_credentials now (io\<lparr>csv_error := True\<rparr>) uname pwd s))
        = users (snd (check_credentials now (io\<lparr>csv_error := False\<rparr>) uname pwd s))"
    by (auto simp: check_credentials_def Let_def users_log_login split: option.splits)
  from a b c show ?thesis by blast
qed

theorem mirror_failure_not_propagated_witness:
  "select_user ''carol'' (users with_feedback) = None
   \<and> write_error no_faults = None
   \<and> fst (signup ''2025-03-01 12:00:00'' (no_faults\<lparr>csv_error := True\<rparr>) ''carol'' ''pw'' with_feedback)
       = (True, ''Account created'')
   \<and> feedback with_feedback \<noteq> None
   \<and> fst (save_feedback ''2025-03-01 12:05:00'' (no_faults\<lparr>csv_error := True\<rparr>) ''alice'' ''great tool'' with_feedback)
       = (True, ''Saved'')"
proof -
  have absent: "select_user ''carol'' (users with_feedback) = None"
    by (simp add: select_user_def with_feedback_def two_users_def alice_row_def bob_row_def)
  have wr: "write_error no_faults = None"
    by (simp add: no_faults_def)
  have tbl: "feedback with_feedback \<noteq> None"
    by (simp add: with_feedback_def)
  from mirror_failure_not_propagated [of "''carol''" with_feedback no_faults
      "''2025-03-01 12:00:00''" "''pw''"] absent wr
  have "fst (signup ''2025-03-01 12:00:00'' (no_faults\<lparr>csv_error := True\<rparr>) ''carol'' ''pw'' with_feedback)
       = (True, ''Account created'')"
    by blast
  moreover
  from mirror_failure_not_propagated [of "''alice''" with_feedback no_faults
      "''2025-03-01 12:05:00''" "''pw''" "''great tool''"] tbl wr
  have "fst (save_feedback ''2025-03-01 12:05:00'' (no_faults\<lparr>csv_error := True\<rparr>) ''alice'' ''great tool'' with_feedback)
       = (True, ''Saved'')"
    by blast
  ultimately show ?thesis using absent wr tbl by blast
qed

text \<open>
  C6 (chart validation). Creating a Density Heatmap or a Heatmap with no Y column makes no
  figure: the page shows the validation error and the chart session, with its last chart,
  is left as it was.
\<close>

theorem heatmap_without_y_rejected:
  assumes "kind = Density_Heatmap \<or> kind = Heatmap"
  shows "\<exists>m. build_figure px df kind x_col None color_col = Rejected m
     \<and> create_chart px df kind x_col None color_col sess = ([Error m], sess)"
  using assms by (auto simp: create_chart_def build_figure_def selected_def)

theorem heatmap_without_y_rejected_witness:
  "(Heatmap = Density_Heatmap \<or> Heatmap = Heatmap)
   \<and> create_chart demo_px () Heatmap ''price'' None (Some ''city'')
         \<lparr>last_chart = None, last_chart_created = False\<rparr>
       = ([Error ''Heatmap requires both X and Y columns''],
          \<lparr>last_chart = None, last_chart_created = False\<rparr>)"
  using heatmap_without_y_rejected [of Heatmap demo_px "()" "''price''" "Some ''city''"
      "\<lparr>last_chart = None, last_chart_created = False\<rparr>"]
  by (simp add: build_figure_def selected_def)

section \<open>Properties of the data analysis page\<close>

lemma search_filter_empty: "search_filter df search_col [] = Inr df"
  by (simp add: search_filter_def)

lemma match_here_literal:
  "match_here (map Lit sub) t \<longleftrightarrow> take (length sub) (str_lower t) = str_lower sub"
proof (induction sub arbitrary: t)
  case Nil
  then show ?case by (simp add: str_lower_def)
next
  case (Cons a sub)
  show ?case
  proof (cases t)
    case Nil
    then show ?thesis by (simp add: str_lower_def)
  next
    case (Cons c cs)
    with Cons.IH [of cs] show ?thesis by (auto simp: str_lower_def)
  qed
qed

lemma re_search_offsets:
  "re_search p t \<longleftrightarrow> (\<exists>i \<le> length t. match_here p (drop i t))"
proof (induction t)
  case Nil
  then show ?case by simp
next
  case (Cons c cs)
  have "(\<exists>i \<le> length (c # cs). match_here p (drop i (c # cs)))
      \<longleftrightarrow> match_here p (c # cs) \<or> (\<exists>i \<le> length cs. match_here p (drop i cs))"
  proof
    assume "\<exists>i \<le> length (c # cs). match_here p (drop i (c # cs))"
    then obtain i where i: "i \<le> length (c # cs)" "match_here p (drop i (c # cs))" by blast
    show "match_here p (c # cs) \<or> (\<exists>i \<le> length cs. match_here p (drop i cs))"
    proof (cases i)
      case 0
      with i show ?thesis by simp
    next
      case (Suc k)
      with i have "k \<le> length cs \<and> match_here p (drop k cs)" by simp
      then show ?thesis by blast
    qed
  next
    assume "match_here p (c # cs) \<or> (\<exists>i \<le> length cs. match_here p (drop i cs))"
    then show "\<exists>i \<le> length (c # cs). match_here p (drop i (c # cs))"
    proof
      assume "match_here p (c # cs)"
      then have "0 \<le> length (c # cs) \<and> match_here p (drop 0 (c # cs))" by simp
      then show ?thesis by blast
    next
      assume "\<exists>i \<le> length cs. match_here p (drop i cs)"
      then obtain k where "k \<le> length cs" "match_here p (drop k cs)" by blast
      then have "Suc k \<le> length (c # cs) \<and> match_here p (drop (Suc k) (c # cs))" by simp
      then show ?thesis by blast
    qed
  qed
  with Cons.IH show ?case by simp
qed

lemma re_search_literal: "re_search (map Lit sub) t \<longleftrightarrow> spec_contains sub t"
proof -
  have "spec_contains sub t \<longleftrightarrow> (\<exists>i \<le> length t. take (length sub) (drop i (str_lower t)) = str_lower sub)"
  proof -
    have "set [0..<Suc (length t)] = {i. i \<le> length t}" by auto
    then show ?thesis unfolding spec_contains_def list_ex_iff by blast
  qed
  also have "\<dots> \<longleftrightarrow> (\<exists>i \<le> length t. match_here (map Lit sub) (drop i t))"
    by (simp add: match_here_literal str_lower_def drop_map)
  finally show ?thesis by (simp add: re_search_offsets)
qed

lemma re_compile_literal:
  assumes "list_all (\<lambda>c. c \<notin> set re_special \<and> c \<noteq> CHR ''.'') sub"
  shows "re_compile sub = Compiled (map Lit sub)"
proof -
  have plain: "list_all (\<lambda>c. c \<notin> set re_special) sub"
    using assms by (simp add: list_all_iff)
  have "sub \<noteq> [] \<Longrightarrow> hd sub \<notin> set ''*+?''"
    using assms by (cases sub) (auto simp: re_special_def)
  moreover have "map (\<lambda>c. if c = CHR ''.'' then Any_Char else Lit c) sub = map Lit sub"
    using assms by (simp add: list_all_iff)
  ultimately show ?thesis using plain by (auto simp: re_compile_def)
qed

lemma search_filter_literal:
  assumes "sub \<noteq> []"
    and "list_all (\<lambda>c. c \<notin> set re_special \<and> c \<noteq> CHR ''.'') sub"
    and "col_index search_col (df_columns df) = Some j"
  shows "search_filter df search_col sub =
     Inr (df\<lparr>df_rows := filter (\<lambda>r. spec_contains sub (astype_str (cell_at r j))) (df_rows df)\<rparr>)"
  using assms by (simp add: search_filter_def re_compile_literal re_search_literal)

text \<open>
  C5 (search filter) at the search text ".": the filter keeps all ten rows of the table,
  though no name contains a dot; and at the search text "*" it raises \<open>re.error\<close>. The
  search text is compiled as a regular expression.
\<close>

theorem search_dot_keeps_rows_without_dot:
  "search_filter pets ''name'' ''.'' = Inr pets
   \<and> filter (\<lambda>r. spec_contains ''.'' (astype_str (cell_at r 0))) (df_rows pets) = []
   \<and> search_filter pets ''name'' ''*'' = Inl Re_Error"
  by code_simp

lemma iloc_inside:
  assumes "0 \<le> a" and "a \<le> b" and "b \<le> int (length xs)"
  shows "iloc xs a b = take (nat (b - a)) (drop (nat a) xs)"
proof -
  have "slice_index (length xs) a = nat a" "slice_index (length xs) b = nat b"
    using assms by (auto simp: slice_index_def)
  moreover have "nat b - nat a = nat (b - a)" using assms by linarith
  ultimately show ?thesis by (simp add: iloc_def)
qed

lemma select_columns_rows:
  assumes "find (\<lambda>l. l \<notin> set (df_columns d)) labels = None"
  shows "select_columns labels d =
     Inr \<lparr>df_columns = labels,
          df_rows = map (\<lambda>r. map (\<lambda>l. cell_at r (the (col_index l (df_columns d)))) labels) (df_rows d)\<rparr>"
  using assms by (simp add: select_columns_def)

lemma show_window_inside:
  assumes "0 \<le> n" and "n < int (length (df_rows f))"
    and "0 \<le> start" and "start \<le> data_max f n"
    and "find (\<lambda>l. l \<notin> set (df_columns f)) labels = None"
  shows "\<exists>v. show_window f n start labels = Inr v \<and> info v = None
     \<and> df_columns (shown v) = labels
     \<and> length (df_rows (shown v)) = nat n
     \<and> (\<forall>i < nat n. df_rows (shown v) ! i =
           map (\<lambda>l. cell_at (df_rows f ! (nat start + i)) (the (col_index l (df_columns f)))) labels)"
proof -
  let ?R = "df_rows f"
  have dm: "data_max f n = int (length ?R) - n" "data_max f n > 0"
    using assms(2) by (simp_all add: data_max_def)
  have win: "iloc ?R start (start + n) = take (nat n) (drop (nat start) ?R)"
    using assms dm iloc_inside [of start "start + n" ?R] by simp
  have len: "length (take (nat n) (drop (nat start) ?R)) = nat n"
    using assms dm by simp
  have nth: "take (nat n) (drop (nat start) ?R) ! i = ?R ! (nat start + i)" if "i < nat n" for i
    using that assms dm by simp
  let ?w = "f\<lparr>df_rows := take (nat n) (drop (nat start) ?R)\<rparr>"
  have sel: "select_columns labels ?w =
     Inr \<lparr>df_columns = labels,
          df_rows = map (\<lambda>r. map (\<lambda>l. cell_at r (the (col_index l (df_columns f)))) labels)
                      (take (nat n) (drop (nat start) ?R))\<rparr>"
    using select_columns_rows [of ?w labels] assms(5) by simp
  have run: "show_window f n start labels =
     Inr \<lparr>info = None,
          shown = \<lparr>df_columns = labels,
             df_rows = map (\<lambda>r. map (\<lambda>l. cell_at r (the (col_index l (df_columns f)))) labels)
                         (take (nat n) (drop (nat start) ?R))\<rparr>\<rparr>"
    using dm(2) by (simp add: show_window_def Let_def win sel)
  show ?thesis
    unfolding run using len nth by simp
qed

lemma show_window_too_large:
  assumes "int (length (df_rows f)) \<le> n"
  shows "show_window f n start labels =
     Inr \<lparr>info = Some ''No data to display for the selected filters.'', shown = f\<lparr>df_rows := []\<rparr>\<rparr>"
  using assms by (simp add: show_window_def data_max_def iloc_def slice_index_def)

text \<open>
  C1 (analysis windowing) at a table of ten rows, no search text, the default window size
  10 and offset 0: \<open>data_max\<close> is 0, so the page takes the branch without slider, shows
  "No data to display for the selected filters." and an empty table instead of the ten
  rows.
\<close>

theorem window_of_all_rows_is_empty:
  "length (df_rows pets) = 10
   \<and> data_max pets 10 = 0
   \<and> page_analysis pets 10 ''name'' [] 0 [''name'', ''age'']
       = Inr \<lparr>info = Some ''No data to display for the selected filters.'',
              shown = \<lparr>df_columns = [''name'', ''age''], df_rows = []\<rparr>\<rparr>"
  by code_simp

section \<open>Properties of the schema migration\<close>























end
